theory Spec2Isabelle
  imports Complex_Main
begin

section \<open>Data model\<close>

text \<open>
  The converter of \<^verbatim>\<open>src/main.py\<close> reads a triangulated mesh and draws one of its
  parallel projections. A numpy array of shape (N, 3) is a list of triples, one of shape
  (N, 2) a list of pairs. Coordinates are numpy's float64 in the source and exact real
  numbers here: every statement below is about exact arithmetic, rounding is not modelled.
  The mesh object comes from the trimesh library; the converter reads three of its
  attributes, which are the fields of the record. Vertex indices are natural numbers.
\<close>

type_synonym point2 = "real \<times> real"
type_synonym point3 = "real \<times> real \<times> real"
type_synonym mat3 = "point3 \<times> point3 \<times> point3"

record mesh =
  vertices :: "point3 list"
  faces :: "(nat \<times> nat \<times> nat) list"
  edges_unique :: "(nat \<times> nat) list"

text \<open>
  The exceptions the modelled code can raise: numpy's IndexError for a row index out of
  range, and ValueError for a reduction over, or a stacking of, an empty sequence. A float
  division by zero does not raise in numpy, it yields inf or nan; the reals have neither,
  so that outcome is the value \<open>NonFinite\<close>.
\<close>

datatype error = IndexError | ValueError | NonFinite

definition row :: "'a list \<Rightarrow> nat \<Rightarrow> error + 'a" where
  "row arr i = (if i < length arr then Inr (arr ! i) else Inl IndexError)"

section \<open>Projection\<close>

definition radians :: "real \<Rightarrow> real" where
  "radians deg = deg * pi / 180"

definition rot_z :: mat3 where
  "rot_z =
     (let angle = radians 45; cos_a = cos angle; sin_a = sin angle
      in ((cos_a, - sin_a, 0), (sin_a, cos_a, 0), (0, 0, 1)))"

fun transpose3 :: "mat3 \<Rightarrow> mat3" where
  "transpose3 ((a, b, c), (d, e, f), (g, h, i)) = ((a, d, g), (b, e, h), (c, f, i))"

text \<open>One row of the product \<^verbatim>\<open>vertices @ m\<close>: a row vector times a 3x3 matrix.\<close>

fun matmul_row :: "point3 \<Rightarrow> mat3 \<Rightarrow> point3" where
  "matmul_row (x, y, z) ((a, b, c), (d, e, f), (g, h, i)) =
     (x * a + y * d + z * g, x * b + y * e + z * h, x * c + y * f + z * i)"

text \<open>The column selections \<^verbatim>\<open>[:, [0, 1]]\<close>, \<^verbatim>\<open>[:, [0, 2]]\<close> and \<^verbatim>\<open>[:, [1, 2]]\<close>.\<close>

fun cols01 :: "point3 \<Rightarrow> point2" where
  "cols01 (x, y, z) = (x, y)"

fun cols02 :: "point3 \<Rightarrow> point2" where
  "cols02 (x, y, z) = (x, z)"

fun cols12 :: "point3 \<Rightarrow> point2" where
  "cols12 (x, y, z) = (y, z)"

definition get_projection :: "mesh \<Rightarrow> string \<Rightarrow> point2 list" where
  "get_projection m view =
     (if view = ''top'' then map cols01 (vertices m)
      else if view = ''front'' then map cols02 (vertices m)
      else if view = ''side'' then map cols12 (vertices m)
      else if view = ''isometric'' then
        map cols02 (map (\<lambda>v. matmul_row v (transpose3 rot_z)) (vertices m))
      else map cols01 (vertices m))"

section \<open>Geometry extraction\<close>

text \<open>
  \<^verbatim>\<open>get_outline_edges\<close> walks \<^verbatim>\<open>mesh.edges_unique\<close> and reads both endpoints
  of every edge from the projection; a read out of range raises and ends the walk.
\<close>

fun edge_lines_loop :: "point2 list \<Rightarrow> (nat \<times> nat) list \<Rightarrow> error + (point2 \<times> point2) list" where
  "edge_lines_loop projection [] = Inr []"
| "edge_lines_loop projection (edge # edges) =
     (case row projection (fst edge) of
        Inl e \<Rightarrow> Inl e
      | Inr p1 \<Rightarrow>
          (case row projection (snd edge) of
             Inl e \<Rightarrow> Inl e
           | Inr p2 \<Rightarrow>
               (case edge_lines_loop projection edges of
                  Inl e \<Rightarrow> Inl e
                | Inr edge_lines \<Rightarrow> Inr ((p1, p2) # edge_lines))))"

definition get_outline_edges :: "mesh \<Rightarrow> string \<Rightarrow> error + (point2 \<times> point2) list" where
  "get_outline_edges m view = edge_lines_loop (get_projection m view) (edges_unique m)"

text \<open>Indexing an array with a face, \<^verbatim>\<open>arr[face]\<close>: the three rows the face names.\<close>

fun rows3 :: "'a list \<Rightarrow> nat \<times> nat \<times> nat \<Rightarrow> error + 'a list" where
  "rows3 arr (a, b, c) =
     (if a < length arr \<and> b < length arr \<and> c < length arr
      then Inr [arr ! a, arr ! b, arr ! c] else Inl IndexError)"

fun projected_faces_loop :: "point2 list \<Rightarrow> (nat \<times> nat \<times> nat) list \<Rightarrow> error + point2 list list" where
  "projected_faces_loop projection [] = Inr []"
| "projected_faces_loop projection (face # fs) =
     (case rows3 projection face of
        Inl e \<Rightarrow> Inl e
      | Inr face_2d \<Rightarrow>
          (case projected_faces_loop projection fs of
             Inl e \<Rightarrow> Inl e
           | Inr projected_faces \<Rightarrow> Inr (face_2d # projected_faces)))"

definition get_filled_projection :: "mesh \<Rightarrow> string \<Rightarrow> error + (point2 list \<times> point2 list list)" where
  "get_filled_projection m view =
     (let projection = get_projection m view
      in case projected_faces_loop projection (faces m) of
           Inl e \<Rightarrow> Inl e
         | Inr projected_faces \<Rightarrow> Inr (projection, projected_faces))"

section \<open>Canvas normalisation\<close>

text \<open>
  \<^verbatim>\<open>points.min(axis=0)\<close> and \<^verbatim>\<open>points.max(axis=0)\<close> reduce each column from its
  first entry and raise ValueError on an array without rows.
\<close>

definition amin :: "point2 list \<Rightarrow> error + point2" where
  "amin points =
     (case points of
        [] \<Rightarrow> Inl ValueError
      | p # ps \<Rightarrow> Inr (fold min (map fst ps) (fst p), fold min (map snd ps) (snd p)))"

definition amax :: "point2 list \<Rightarrow> error + point2" where
  "amax points =
     (case points of
        [] \<Rightarrow> Inl ValueError
      | p # ps \<Rightarrow> Inr (fold max (map fst ps) (fst p), fold max (map snd ps) (snd p)))"

text \<open>\<^verbatim>\<open>np.where(range_vals == 0, 1, range_vals)\<close>, one entry.\<close>

definition where_zero_one :: "real \<Rightarrow> real" where
  "where_zero_one r = (if r = 0 then 1 else r)"

text \<open>The bounding-box ranges after the replacement of zeros.\<close>

definition range_vals :: "point2 \<Rightarrow> point2 \<Rightarrow> point2" where
  "range_vals min_vals max_vals =
     (where_zero_one (fst max_vals - fst min_vals), where_zero_one (snd max_vals - snd min_vals))"

definition true_divide :: "real \<Rightarrow> real \<Rightarrow> error + real" where
  "true_divide a b = (if b = 0 then Inl NonFinite else Inr (a / b))"

definition normalize_coords :: "point2 list \<Rightarrow> int \<Rightarrow> int \<Rightarrow> error + (point2 list \<times> real)" where
  "normalize_coords points sz margin =
     (case amin points of
        Inl e \<Rightarrow> Inl e
      | Inr min_vals \<Rightarrow>
          (case amax points of
             Inl e \<Rightarrow> Inl e
           | Inr max_vals \<Rightarrow>
               (let rv = range_vals min_vals max_vals
                in case true_divide (real_of_int (sz - 2 * margin)) (max (fst rv) (snd rv)) of
                     Inl e \<Rightarrow> Inl e
                   | Inr scale \<Rightarrow>
                       Inr (map (\<lambda>p. ((fst p - fst min_vals) * scale + real_of_int margin,
                                       (snd p - snd min_vals) * scale + real_of_int margin)) points,
                            scale))))"

text \<open>The margin every caller of \<^verbatim>\<open>normalize_coords\<close> leaves to its default.\<close>

definition default_margin :: int where
  "default_margin = 50"

section \<open>Encoders\<close>

text \<open>
  The three output libraries (ezdxf, svgwrite, PIL) are modelled by what the converter asks
  of them: a document is the sequence of primitives added to it, in order, and saving it
  binds the output path to the document. An exception raised before the save leaves the
  files as they were.
\<close>

datatype dxf_entity = DxfLine point2 point2 | LwPolyline "point2 list" bool

datatype svg_element =
    SvgRect "int \<times> int" "int \<times> int" string
  | SvgPolygon "point2 list" string string real
  | SvgLine point2 point2 string real

datatype png_op =
    PngPolygon "point2 list" "nat \<times> nat \<times> nat" "nat \<times> nat \<times> nat"
  | PngLine "point2 list" string nat

datatype document =
    DxfDoc "dxf_entity list"
  | SvgDoc "int \<times> int" "svg_element list"
  | PngImage "int \<times> int" "png_op list"

type_synonym files = "string \<rightharpoonup> document"

text \<open>\<^verbatim>\<open>np.vstack\<close> of a list of points; it raises ValueError on the empty list.\<close>

definition vstack :: "point2 list \<Rightarrow> error + point2 list" where
  "vstack ps = (if ps = [] then Inl ValueError else Inr ps)"

text \<open>\<^verbatim>\<open>[p for edge in edges for p in edge]\<close>\<close>

definition flatten_edges :: "(point2 \<times> point2) list \<Rightarrow> point2 list" where
  "flatten_edges edges = concat (map (\<lambda>edge. [fst edge, snd edge]) edges)"

text \<open>The drawn position of a canvas point: \<^verbatim>\<open>(float(p[0]), float(size - p[1]))\<close>.\<close>

definition flip_y :: "int \<Rightarrow> point2 \<Rightarrow> point2" where
  "flip_y sz p = (fst p, real_of_int sz - snd p)"

definition dxf_entities :: "mesh \<Rightarrow> string \<Rightarrow> string \<Rightarrow> error + dxf_entity list" where
  "dxf_entities m view mode =
     (if mode = ''filled'' then
        (case get_filled_projection m view of
           Inl e \<Rightarrow> Inl e
         | Inr (projection, fcs) \<Rightarrow> Inr (map (\<lambda>face. LwPolyline face True) fcs))
      else
        (case get_outline_edges m view of
           Inl e \<Rightarrow> Inl e
         | Inr edges \<Rightarrow> Inr (map (\<lambda>edge. DxfLine (fst edge) (snd edge)) edges)))"

definition to_dxf :: "mesh \<Rightarrow> string \<Rightarrow> string \<Rightarrow> string \<Rightarrow> files \<Rightarrow> (error + unit) \<times> files" where
  "to_dxf m view output_path mode fs =
     (case dxf_entities m view mode of
        Inl e \<Rightarrow> (Inl e, fs)
      | Inr msp \<Rightarrow> (Inr (), fs(output_path \<mapsto> DxfDoc msp)))"

text \<open>
  The face loop of the markup and raster encoders reads the rows of the normalised array
  that each face of \<^verbatim>\<open>mesh.faces\<close> names and flips them.
\<close>

fun face_points_loop :: "point2 list \<Rightarrow> int \<Rightarrow> (nat \<times> nat \<times> nat) list \<Rightarrow> error + point2 list list" where
  "face_points_loop normalized sz [] = Inr []"
| "face_points_loop normalized sz (face_indices # fs) =
     (case rows3 normalized face_indices of
        Inl e \<Rightarrow> Inl e
      | Inr face_points \<Rightarrow>
          (case face_points_loop normalized sz fs of
             Inl e \<Rightarrow> Inl e
           | Inr rest \<Rightarrow> Inr (map (flip_y sz) face_points # rest)))"

text \<open>
  The edge loop runs once per edge, ignores the edge itself and reads the normalised array
  at \<^verbatim>\<open>point_idx\<close> and \<^verbatim>\<open>point_idx + 1\<close>, advancing the index by two.
\<close>

fun edge_points_loop :: "point2 list \<Rightarrow> int \<Rightarrow> nat \<Rightarrow> 'e list \<Rightarrow> error + (point2 \<times> point2) list" where
  "edge_points_loop normalized sz point_idx [] = Inr []"
| "edge_points_loop normalized sz point_idx (edge # edges) =
     (case row normalized point_idx of
        Inl e \<Rightarrow> Inl e
      | Inr p1 \<Rightarrow>
          (case row normalized (point_idx + 1) of
             Inl e \<Rightarrow> Inl e
           | Inr p2 \<Rightarrow>
               (case edge_points_loop normalized sz (point_idx + 2) edges of
                  Inl e \<Rightarrow> Inl e
                | Inr rest \<Rightarrow> Inr ((flip_y sz p1, flip_y sz p2) # rest))))"

text \<open>What both encoders compute before drawing: the flipped canvas points of each primitive.\<close>

definition filled_canvas_faces :: "mesh \<Rightarrow> string \<Rightarrow> int \<Rightarrow> error + point2 list list" where
  "filled_canvas_faces m view sz =
     (case get_filled_projection m view of
        Inl e \<Rightarrow> Inl e
      | Inr (projection, fcs) \<Rightarrow>
          (case normalize_coords projection sz default_margin of
             Inl e \<Rightarrow> Inl e
           | Inr (normalized, scale) \<Rightarrow> face_points_loop normalized sz (faces m)))"

definition edge_canvas_lines :: "mesh \<Rightarrow> string \<Rightarrow> int \<Rightarrow> error + (point2 \<times> point2) list" where
  "edge_canvas_lines m view sz =
     (case get_outline_edges m view of
        Inl e \<Rightarrow> Inl e
      | Inr edges \<Rightarrow>
          (case vstack (flatten_edges edges) of
             Inl e \<Rightarrow> Inl e
           | Inr all_points \<Rightarrow>
               (case normalize_coords all_points sz default_margin of
                  Inl e \<Rightarrow> Inl e
                | Inr (normalized, scale) \<Rightarrow> edge_points_loop normalized sz 0 edges)))"

definition svg_elements :: "mesh \<Rightarrow> string \<Rightarrow> int \<Rightarrow> string \<Rightarrow> error + svg_element list" where
  "svg_elements m view sz mode =
     (if mode = ''filled'' then
        (case filled_canvas_faces m view sz of
           Inl e \<Rightarrow> Inl e
         | Inr polys \<Rightarrow>
             Inr (map (\<lambda>points. SvgPolygon points ''lightgray'' ''black'' (1 / 2)) polys))
      else
        (case edge_canvas_lines m view sz of
           Inl e \<Rightarrow> Inl e
         | Inr lines \<Rightarrow>
             Inr (map (\<lambda>l. SvgLine (fst l) (snd l) ''black'' (3 / 2)) lines)))"

definition to_svg :: "mesh \<Rightarrow> string \<Rightarrow> string \<Rightarrow> int \<Rightarrow> string \<Rightarrow> files \<Rightarrow> (error + unit) \<times> files" where
  "to_svg m view output_path sz mode fs =
     (case svg_elements m view sz mode of
        Inl e \<Rightarrow> (Inl e, fs)
      | Inr elems \<Rightarrow>
          (Inr (), fs(output_path \<mapsto>
             SvgDoc (sz, sz) (SvgRect (0, 0) (sz, sz) ''white'' # elems))))"

definition png_ops :: "mesh \<Rightarrow> string \<Rightarrow> int \<Rightarrow> string \<Rightarrow> error + png_op list" where
  "png_ops m view sz mode =
     (if mode = ''filled'' then
        (case filled_canvas_faces m view sz of
           Inl e \<Rightarrow> Inl e
         | Inr polys \<Rightarrow> Inr (map (\<lambda>points. PngPolygon points (200, 200, 200) (0, 0, 0)) polys))
      else
        (case edge_canvas_lines m view sz of
           Inl e \<Rightarrow> Inl e
         | Inr lines \<Rightarrow> Inr (map (\<lambda>l. PngLine [fst l, snd l] ''black'' 2) lines)))"

definition to_png :: "mesh \<Rightarrow> string \<Rightarrow> string \<Rightarrow> int \<Rightarrow> string \<Rightarrow> files \<Rightarrow> (error + unit) \<times> files" where
  "to_png m view output_path sz mode fs =
     (case png_ops m view sz mode of
        Inl e \<Rightarrow> (Inl e, fs)
      | Inr ops \<Rightarrow> (Inr (), fs(output_path \<mapsto> PngImage (sz, sz) ops)))"

text \<open>The bound the \<^verbatim>\<open>/convert\<close> endpoint puts on its \<^verbatim>\<open>size\<close> parameter.\<close>

definition size_accepted :: "int \<Rightarrow> bool" where
  "size_accepted sz = (100 \<le> sz \<and> sz \<le> 4000)"

text \<open>A mesh whose faces and edges name existing vertices.\<close>

definition mesh_wf :: "mesh \<Rightarrow> bool" where
  "mesh_wf m =
     (list_all (\<lambda>f. fst f < length (vertices m) \<and> fst (snd f) < length (vertices m)
                    \<and> snd (snd f) < length (vertices m)) (faces m)
      \<and> list_all (\<lambda>e. fst e < length (vertices m) \<and> snd e < length (vertices m)) (edges_unique m))"

text \<open>
  The scale \<^verbatim>\<open>normalize_coords\<close> computes, written with the minimum and maximum of
  each coordinate over the set of points instead of the left-to-right reductions.
\<close>

definition bbox_scale :: "point2 list \<Rightarrow> int \<Rightarrow> int \<Rightarrow> real" where
  "bbox_scale points sz margin =
     (let rv = range_vals (Min (fst ` set points), Min (snd ` set points))
                          (Max (fst ` set points), Max (snd ` set points))
      in real_of_int (sz - 2 * margin) / max (fst rv) (snd rv))"


section \<open>Properties of the projection\<close>

text \<open>
  Claim C1. For every mesh and view the projection has one point per vertex, and the
  point at index i is computed from vertex i alone. For view top it is the first two
  coordinates of vertex i, for front the first and third, for side the second and third,
  for isometric the first and third coordinates of the rotated vertex i. A view that is
  none of the four names gives the projection of top, at every index and as a whole.
\<close>

theorem get_projection_index_aligned:
  "length (get_projection m view) = length (vertices m) \<and>
   (\<forall>i x y z. i < length (vertices m) \<and> vertices m ! i = (x, y, z) \<longrightarrow>
      get_projection m ''top'' ! i = (x, y) \<and>
      get_projection m ''front'' ! i = (x, z) \<and>
      get_projection m ''side'' ! i = (y, z) \<and>
      get_projection m ''isometric'' ! i
        = (x * cos (radians 45) - y * sin (radians 45), z) \<and>
      (view \<notin> {''top'', ''front'', ''side'', ''isometric''} \<longrightarrow>
         get_projection m view ! i = (x, y))) \<and>
   (view \<notin> {''top'', ''front'', ''side'', ''isometric''} \<longrightarrow>
      get_projection m view = get_projection m ''top'')"
  by (simp add: get_projection_def rot_z_def Let_def)

theorem get_projection_index_aligned_witness:
  "length (get_projection \<lparr>vertices = [(1, 2, 3), (4, 5, 6)], faces = [], edges_unique = []\<rparr> ''bottom'') = 2 \<and>
   get_projection \<lparr>vertices = [(1, 2, 3), (4, 5, 6)], faces = [], edges_unique = []\<rparr> ''top'' ! 1 = (4, 5) \<and>
   get_projection \<lparr>vertices = [(1, 2, 3), (4, 5, 6)], faces = [], edges_unique = []\<rparr> ''front'' ! 1 = (4, 6) \<and>
   get_projection \<lparr>vertices = [(1, 2, 3), (4, 5, 6)], faces = [], edges_unique = []\<rparr> ''side'' ! 1 = (5, 6) \<and>
   get_projection \<lparr>vertices = [(1, 2, 3), (4, 5, 6)], faces = [], edges_unique = []\<rparr> ''isometric'' ! 1
     = (4 * cos (radians 45) - 5 * sin (radians 45), 6) \<and>
   get_projection \<lparr>vertices = [(1, 2, 3), (4, 5, 6)], faces = [], edges_unique = []\<rparr> ''bottom'' ! 1 = (4, 5) \<and>
   get_projection \<lparr>vertices = [(1, 2, 3), (4, 5, 6)], faces = [], edges_unique = []\<rparr> ''bottom'' = [(1, 2), (4, 5)]"
proof -
  let ?m = "\<lparr>vertices = [(1, 2, 3), (4, 5, 6)], faces = [], edges_unique = []\<rparr>"
  have i: "1 < length (vertices ?m) \<and> vertices ?m ! 1 = (4, 5, 6)" by simp
  have v: "''bottom'' \<notin> {''top'', ''front'', ''side'', ''isometric''}" by simp
  note T = get_projection_index_aligned [of ?m "''bottom''"]
  have len: "length (get_projection ?m ''bottom'') = length (vertices ?m)"
    by (rule conjunct1 [OF T])
  note a = conjunct1 [OF conjunct2 [OF T], rule_format, OF i]
  have fb: "''bottom'' \<notin> {''top'', ''front'', ''side'', ''isometric''} \<longrightarrow>
      get_projection ?m ''bottom'' = get_projection ?m ''top''"
    by (rule conjunct2 [OF conjunct2 [OF T]])
  have t: "get_projection ?m ''top'' = [(1, 2), (4, 5)]" by (simp add: get_projection_def)
  from len a fb v t show ?thesis by simp
qed

lemma radians_45: "radians 45 = pi / 4"
  by (simp add: radians_def)

text \<open>
  Claim C2, as stated, at the point (1, 0, 0): the rotation does not give
  (cos 45, 0, sin 45) and the isometric projection does not give (cos 45, sin 45).
\<close>

theorem isometric_unit_x_counterexample:
  "matmul_row (1, 0, 0) (transpose3 rot_z) \<noteq> (cos (radians 45), 0, sin (radians 45)) \<and>
   get_projection \<lparr>vertices = [(1, 0, 0)], faces = [], edges_unique = []\<rparr> ''isometric''
     \<noteq> [(cos (radians 45), sin (radians 45))]"
  by (simp add: get_projection_def rot_z_def Let_def radians_45 sin_45 cos_45)

text \<open>
  Claim C2, amended. The rotation is about the third axis, so it turns (1, 0, 0) into
  (cos 45, sin 45, 0); keeping the first and third axes gives the point (cos 45, 0).
\<close>

theorem isometric_unit_x:
  "matmul_row (1, 0, 0) (transpose3 rot_z) = (cos (radians 45), sin (radians 45), 0) \<and>
   get_projection \<lparr>vertices = [(1, 0, 0)], faces = [], edges_unique = []\<rparr> ''isometric''
     = [(cos (radians 45), 0)]"
  by (simp add: get_projection_def rot_z_def Let_def)

section \<open>Properties of the normaliser\<close>

lemma fold_min_Min: "fold min xs (x::real) = Min (set (x # xs))"
  by (simp only: Min.set_eq_fold)

lemma fold_max_Max: "fold max xs (x::real) = Max (set (x # xs))"
  by (simp only: Max.set_eq_fold)

lemma amin_Min:
  "points \<noteq> [] \<Longrightarrow> amin points = Inr (Min (fst ` set points), Min (snd ` set points))"
  by (cases points) (simp_all add: amin_def fold_min_Min)

lemma amax_Max:
  "points \<noteq> [] \<Longrightarrow> amax points = Inr (Max (fst ` set points), Max (snd ` set points))"
  by (cases points) (simp_all add: amax_def fold_max_Max)

lemma where_zero_one_pos: "0 \<le> r \<Longrightarrow> 0 < where_zero_one r"
  by (simp add: where_zero_one_def)

lemma where_zero_one_ge: "0 \<le> r \<Longrightarrow> r \<le> where_zero_one r"
  by (simp add: where_zero_one_def)

lemma Min_le_Max_img: "finite A \<Longrightarrow> A \<noteq> {} \<Longrightarrow> Min (f ` A) \<le> (Max (f ` A) :: real)"
  by (simp add: Min_le_iff)

lemma range_vals_pos:
  assumes "points \<noteq> []"
  shows "0 < fst (range_vals (Min (fst ` set points), Min (snd ` set points))
                            (Max (fst ` set points), Max (snd ` set points)))"
    and "0 < snd (range_vals (Min (fst ` set points), Min (snd ` set points))
                            (Max (fst ` set points), Max (snd ` set points)))"
  using assms by (simp_all add: range_vals_def where_zero_one_pos Min_le_Max_img)

lemma normalize_coords_eq:
  assumes "points \<noteq> []"
  shows "normalize_coords points sz margin =
     Inr (map (\<lambda>p. ((fst p - Min (fst ` set points)) * bbox_scale points sz margin + real_of_int margin,
                    (snd p - Min (snd ` set points)) * bbox_scale points sz margin + real_of_int margin)) points,
          bbox_scale points sz margin)"
proof -
  let ?rv = "range_vals (Min (fst ` set points), Min (snd ` set points))
                        (Max (fst ` set points), Max (snd ` set points))"
  have "max (fst ?rv) (snd ?rv) \<noteq> 0"
    using range_vals_pos [OF assms] by (simp add: max_def)
  then show ?thesis
    by (simp add: normalize_coords_def amin_Min [OF assms] amax_Max [OF assms] Let_def
        true_divide_def bbox_scale_def)
qed







lemma map_const_replicate:
  "(\<forall>x \<in> set xs. f x = c) \<Longrightarrow> map f xs = replicate (length xs) c"
  by (induction xs) simp_all

lemma set_all_same:
  assumes "points \<noteq> []" and "\<forall>q \<in> set points. q = p"
  shows "set points = {p}"
  using assms by (cases points) auto

text \<open>
  Claim C4. When all points of a non-empty input are the same point, both ranges are
  zero and are replaced by 1, the division is by 1 and yields the span between the
  margins (no division by zero, no non-finite value), and every normalised point is
  (margin, margin).
\<close>

theorem normalize_coords_degenerate:
  assumes ne: "points \<noteq> []" and same: "\<forall>q \<in> set points. q = p"
  shows "amin points = Inr p \<and> amax points = Inr p \<and> range_vals p p = (1, 1) \<and>
         true_divide (real_of_int (sz - 2 * margin)) (max (fst (range_vals p p)) (snd (range_vals p p)))
           = Inr (real_of_int (sz - 2 * margin) / 1) \<and>
         normalize_coords points sz margin =
           Inr (replicate (length points) (real_of_int margin, real_of_int margin),
                real_of_int (sz - 2 * margin) / 1)"
proof -
  have s: "set points = {p}" by (rule set_all_same [OF ne same])
  have rv: "range_vals p p = (1, 1)" by (simp add: range_vals_def where_zero_one_def)
  have sc: "bbox_scale points sz margin = real_of_int (sz - 2 * margin)"
    by (simp add: bbox_scale_def s rv)
  have mp: "map (\<lambda>q. ((fst q - Min (fst ` set points)) * bbox_scale points sz margin + real_of_int margin,
                    (snd q - Min (snd ` set points)) * bbox_scale points sz margin + real_of_int margin)) points
            = replicate (length points) (real_of_int margin, real_of_int margin)"
    by (rule map_const_replicate) (simp add: s)
  have n: "normalize_coords points sz margin =
           Inr (replicate (length points) (real_of_int margin, real_of_int margin),
                real_of_int (sz - 2 * margin))"
    unfolding normalize_coords_eq [OF ne] mp by (simp only: sc)
  show ?thesis
    using amin_Min [OF ne] amax_Max [OF ne] n rv
    by (simp add: s true_divide_def)
qed

theorem normalize_coords_degenerate_witness:
  "normalize_coords [(3, 7), (3, 7), (3, 7)] 1000 50 = Inr ([(50, 50), (50, 50), (50, 50)], 900)"
proof -
  have ne: "[(3, 7), (3, 7), (3::real, 7::real)] \<noteq> []" by simp
  have same: "\<forall>q \<in> set [(3, 7), (3, 7), (3::real, 7::real)]. q = (3, 7)" by simp
  show ?thesis
    using normalize_coords_degenerate [OF ne same, of 1000 50]
    by (simp add: numeral_3_eq_3)
qed

lemma translate_fst_image:
  "fst ` set (map (\<lambda>p. (fst p + a, snd p + b)) points) = (\<lambda>x. x + a) ` (fst ` set points)"
  by (simp add: image_image)

lemma translate_snd_image:
  "snd ` set (map (\<lambda>p. (fst p + a, snd p + b)) points) = (\<lambda>x. x + b) ` (snd ` set points)"
  by (simp add: image_image)

lemma Min_translate:
  "points \<noteq> [] \<Longrightarrow>
     Min (fst ` set (map (\<lambda>p. (fst p + a, snd p + b)) points)) = Min (fst ` set points) + (a::real)"
  "points \<noteq> [] \<Longrightarrow>
     Min (snd ` set (map (\<lambda>p. (fst p + a, snd p + b)) points)) = Min (snd ` set points) + (b::real)"
  "points \<noteq> [] \<Longrightarrow>
     Max (fst ` set (map (\<lambda>p. (fst p + a, snd p + b)) points)) = Max (fst ` set points) + (a::real)"
  "points \<noteq> [] \<Longrightarrow>
     Max (snd ` set (map (\<lambda>p. (fst p + a, snd p + b)) points)) = Max (snd ` set points) + (b::real)"
  by (simp_all only: translate_fst_image translate_snd_image)
     (simp_all add: Min_add_commute Max_add_commute)

lemma bbox_scale_translate:
  assumes "points \<noteq> []"
  shows "bbox_scale (map (\<lambda>p. (fst p + a, snd p + b)) points) sz margin = bbox_scale points sz margin"
  unfolding bbox_scale_def Min_translate [OF assms] by (simp add: range_vals_def)

text \<open>
  Claim C5. Adding one constant vector to every input point changes neither the
  normalised points nor the scale (in exact arithmetic).
\<close>

theorem normalize_coords_translation_invariant:
  "normalize_coords (map (\<lambda>p. (fst p + fst t, snd p + snd t)) points) sz margin
     = normalize_coords points sz margin"
proof (cases "points = []")
  case True
  then show ?thesis by simp
next
  case False
  then have ne': "map (\<lambda>p. (fst p + fst t, snd p + snd t)) points \<noteq> []" by simp
  show ?thesis
    unfolding normalize_coords_eq [OF ne'] normalize_coords_eq [OF False]
      bbox_scale_translate [OF False] Min_translate [OF False]
    by (simp add: o_def)
qed

section \<open>Properties of the encoders\<close>

lemma edge_lines_loop_wf:
  "list_all (\<lambda>e. fst e < length P \<and> snd e < length P) es \<Longrightarrow>
     edge_lines_loop P es = Inr (map (\<lambda>e. (P ! fst e, P ! snd e)) es)"
  by (induction es) (simp_all add: row_def)

lemma projected_faces_loop_wf:
  "list_all (\<lambda>f. fst f < length P \<and> fst (snd f) < length P \<and> snd (snd f) < length P) fs \<Longrightarrow>
     projected_faces_loop P fs
       = Inr (map (\<lambda>f. [P ! fst f, P ! fst (snd f), P ! snd (snd f)]) fs)"
proof (induction fs)
  case Nil
  then show ?case by simp
next
  case (Cons f fs)
  obtain a b c where f: "f = (a, b, c)" by (cases f) auto
  from Cons show ?case by (simp add: f)
qed

lemma length_get_projection: "length (get_projection m view) = length (vertices m)"
  by (simp add: get_projection_def)

lemma get_outline_edges_wf:
  "mesh_wf m \<Longrightarrow>
     get_outline_edges m view
       = Inr (map (\<lambda>e. (get_projection m view ! fst e, get_projection m view ! snd e))
                (edges_unique m))"
  by (simp add: get_outline_edges_def mesh_wf_def edge_lines_loop_wf length_get_projection)

lemma get_filled_projection_wf:
  "mesh_wf m \<Longrightarrow>
     get_filled_projection m view
       = Inr (get_projection m view,
              map (\<lambda>f. [get_projection m view ! fst f, get_projection m view ! fst (snd f),
                         get_projection m view ! snd (snd f)]) (faces m))"
  by (simp add: get_filled_projection_def mesh_wf_def projected_faces_loop_wf
      length_get_projection Let_def)

text \<open>
  Claim C6. The DXF encoder does not normalise. For a mesh whose faces and edges name
  existing vertices, the document holds one closed polyline per face through the three
  projected points of the face (mode filled), or one line per unique edge between the two
  projected points of the edge (any other mode), with the coordinates of the projection.
\<close>

theorem to_dxf_raw_coordinates:
  assumes wf: "mesh_wf m"
  shows "let P = get_projection m view;
             entities =
               (if mode = ''filled''
                then map (\<lambda>f. LwPolyline [P ! fst f, P ! fst (snd f), P ! snd (snd f)] True) (faces m)
                else map (\<lambda>e. DxfLine (P ! fst e) (P ! snd e)) (edges_unique m))
         in dxf_entities m view mode = Inr entities \<and>
            to_dxf m view output_path mode fs = (Inr (), fs(output_path \<mapsto> DxfDoc entities))"
  by (simp add: Let_def to_dxf_def dxf_entities_def get_outline_edges_wf [OF wf]
      get_filled_projection_wf [OF wf] o_def)

theorem to_dxf_raw_coordinates_witness:
  "to_dxf \<lparr>vertices = [(0, 0, 0), (1, 0, 0), (0, 1, 5)], faces = [(0, 1, 2)],
           edges_unique = [(0, 1), (1, 2), (0, 2)]\<rparr> ''front'' ''out.dxf'' ''wireframe'' Map.empty
     = (Inr (), [''out.dxf'' \<mapsto> DxfDoc [DxfLine (0, 0) (1, 0), DxfLine (1, 0) (0, 5), DxfLine (0, 0) (0, 5)]])
   \<and> to_dxf \<lparr>vertices = [(0, 0, 0), (1, 0, 0), (0, 1, 5)], faces = [(0, 1, 2)],
           edges_unique = [(0, 1), (1, 2), (0, 2)]\<rparr> ''front'' ''out.dxf'' ''filled'' Map.empty
     = (Inr (), [''out.dxf'' \<mapsto> DxfDoc [LwPolyline [(0, 0), (1, 0), (0, 5)] True]])"
proof -
  have wf: "mesh_wf \<lparr>vertices = [(0, 0, 0), (1, 0, 0), (0, 1, 5)], faces = [(0, 1, 2)],
           edges_unique = [(0, 1), (1, 2), (0, 2)]\<rparr>"
    by (simp add: mesh_wf_def)
  show ?thesis
    using to_dxf_raw_coordinates [OF wf, of "''front''" "''wireframe''" "''out.dxf''" Map.empty]
      to_dxf_raw_coordinates [OF wf, of "''front''" "''filled''" "''out.dxf''" Map.empty]
    by (simp add: Let_def get_projection_def)
qed

lemma length_flatten_edges: "length (flatten_edges segs) = 2 * length segs"
  by (induction segs) (simp_all add: flatten_edges_def)

lemma flatten_edges_nth:
  "k < length segs \<Longrightarrow>
     flatten_edges segs ! (2 * k) = fst (segs ! k) \<and> flatten_edges segs ! (2 * k + 1) = snd (segs ! k)"
proof (induction segs arbitrary: k)
  case Nil
  then show ?case by simp
next
  case (Cons s segs)
  have c: "flatten_edges (s # segs) = fst s # snd s # flatten_edges segs"
    by (simp add: flatten_edges_def)
  show ?case
  proof (cases k)
    case 0
    then show ?thesis by (simp add: c)
  next
    case (Suc j)
    with Cons.prems have "j < length segs" by simp
    from Cons.IH [OF this] show ?thesis by (simp add: c Suc)
  qed
qed

lemma flatten_edges_Nil_iff: "flatten_edges segs = [] \<longleftrightarrow> segs = []"
  by (cases segs) (simp_all add: flatten_edges_def)

lemma upt_Suc_map: "map f [0..<Suc n] = f 0 # map (\<lambda>k. f (Suc k)) [0..<n]"
  by (simp add: upt_conv_Cons map_Suc_upt [symmetric] del: upt_Suc)

lemma edge_points_loop_ok:
  "idx + 2 * length es \<le> length normalized \<Longrightarrow>
     edge_points_loop normalized sz idx es
       = Inr (map (\<lambda>k. (flip_y sz (normalized ! (idx + 2 * k)),
                          flip_y sz (normalized ! (idx + 2 * k + 1)))) [0..<length es])"
proof (induction es arbitrary: idx)
  case Nil
  then show ?case by simp
next
  case (Cons e es)
  from Cons.prems have le: "(idx + 2) + 2 * length es \<le> length normalized" by simp
  from Cons.prems have i0: "idx < length normalized" and i1: "idx + 1 < length normalized"
    by simp_all
  have "edge_points_loop normalized sz idx (e # es)
          = Inr ((flip_y sz (normalized ! idx), flip_y sz (normalized ! (idx + 1)))
                 # map (\<lambda>k. (flip_y sz (normalized ! (idx + 2 + 2 * k)),
                                flip_y sz (normalized ! (idx + 2 + 2 * k + 1)))) [0..<length es])"
    by (simp only: edge_points_loop.simps row_def i0 i1 if_True sum.case Cons.IH [OF le])
  also have "\<dots> = Inr (map (\<lambda>k. (flip_y sz (normalized ! (idx + 2 * k)),
                          flip_y sz (normalized ! (idx + 2 * k + 1)))) [0..<length (e # es)])"
    by (simp only: length_Cons upt_Suc_map) (simp add: add.assoc)
  finally show ?case .
qed

lemma face_points_loop_wf:
  "list_all (\<lambda>f. fst f < length N \<and> fst (snd f) < length N \<and> snd (snd f) < length N) fs \<Longrightarrow>
     face_points_loop N sz fs
       = Inr (map (\<lambda>f. [flip_y sz (N ! fst f), flip_y sz (N ! fst (snd f)),
                         flip_y sz (N ! snd (snd f))]) fs)"
proof (induction fs)
  case Nil
  then show ?case by simp
next
  case (Cons f fs)
  obtain a b c where f: "f = (a, b, c)" by (cases f) auto
  from Cons show ?case by (simp add: f)
qed

lemma normalize_coords_length:
  "normalize_coords points sz margin = Inr (normalized, scale) \<Longrightarrow> length normalized = length points"
proof (cases "points = []")
  case True
  assume "normalize_coords points sz margin = Inr (normalized, scale)"
  with True show ?thesis by (simp add: normalize_coords_def amin_def)
next
  case False
  assume "normalize_coords points sz margin = Inr (normalized, scale)"
  then show ?thesis unfolding normalize_coords_eq [OF False] by auto
qed

lemma edge_canvas_lines_wf:
  assumes wf: "mesh_wf m"
    and n: "normalize_coords
              (flatten_edges (map (\<lambda>e. (get_projection m view ! fst e, get_projection m view ! snd e))
                 (edges_unique m))) sz default_margin = Inr (normalized, scale)"
  shows "edge_canvas_lines m view sz
           = Inr (map (\<lambda>k. (flip_y sz (normalized ! (2 * k)), flip_y sz (normalized ! (2 * k + 1))))
                   [0..<length (edges_unique m)])"
proof -
  let ?segs = "map (\<lambda>e. (get_projection m view ! fst e, get_projection m view ! snd e)) (edges_unique m)"
  have ne: "flatten_edges ?segs \<noteq> []"
    using n by (auto simp: normalize_coords_def amin_def)
  have len: "0 + 2 * length ?segs \<le> length normalized"
    using normalize_coords_length [OF n] by (simp add: length_flatten_edges)
  show ?thesis
    using edge_points_loop_ok [OF len, of sz] ne
    by (simp add: edge_canvas_lines_def get_outline_edges_wf [OF wf] vstack_def n)
qed

lemma flatten_edges_projected:
  "flatten_edges (map (\<lambda>e. (P ! fst e, P ! snd e)) E) = concat (map (\<lambda>e. [P ! fst e, P ! snd e]) E)"
  by (simp add: flatten_edges_def o_def)

text \<open>
  Claim C8. In every mode but filled, for a mesh with at least one unique edge whose
  faces and edges name existing vertices, the markup and raster encoders normalise the
  flattened sequence of all edge endpoints in one call, so against one bounding box: the
  normalised sequence has two points per edge, the points at 2k and 2k+1 are the images
  of the two endpoints of edge k under that one affine map, and the k-th drawn line joins
  exactly these two points, each with its vertical coordinate replaced by size minus it.
\<close>

theorem edge_lines_positional:
  assumes wf: "mesh_wf m" and ne: "edges_unique m \<noteq> []" and md: "mode \<noteq> ''filled''"
  shows "let P = get_projection m view;
             E = edges_unique m;
             all_points = concat (map (\<lambda>e. [P ! fst e, P ! snd e]) E);
             min_vals = (Min (fst ` set all_points), Min (snd ` set all_points))
         in case normalize_coords all_points sz default_margin of
              Inl err \<Rightarrow> False
            | Inr (normalized, scale) \<Rightarrow>
                length normalized = 2 * length E \<and>
                (\<forall>k < length E.
                   normalized ! (2 * k) =
                     ((fst (P ! fst (E ! k)) - fst min_vals) * scale + real_of_int default_margin,
                      (snd (P ! fst (E ! k)) - snd min_vals) * scale + real_of_int default_margin) \<and>
                   normalized ! (2 * k + 1) =
                     ((fst (P ! snd (E ! k)) - fst min_vals) * scale + real_of_int default_margin,
                      (snd (P ! snd (E ! k)) - snd min_vals) * scale + real_of_int default_margin)) \<and>
                svg_elements m view sz mode =
                  Inr (map (\<lambda>k. SvgLine (flip_y sz (normalized ! (2 * k)))
                                         (flip_y sz (normalized ! (2 * k + 1))) ''black'' (3 / 2))
                         [0..<length E]) \<and>
                png_ops m view sz mode =
                  Inr (map (\<lambda>k. PngLine [flip_y sz (normalized ! (2 * k)),
                                          flip_y sz (normalized ! (2 * k + 1))] ''black'' 2)
                         [0..<length E])"
proof -
  let ?P = "get_projection m view"
  let ?E = "edges_unique m"
  let ?segs = "map (\<lambda>e. (?P ! fst e, ?P ! snd e)) ?E"
  let ?all = "concat (map (\<lambda>e. [?P ! fst e, ?P ! snd e]) ?E)"
  let ?s = "bbox_scale ?all sz default_margin"
  let ?f = "\<lambda>p. ((fst p - Min (fst ` set ?all)) * ?s + real_of_int default_margin,
                 (snd p - Min (snd ` set ?all)) * ?s + real_of_int default_margin)"
  have fl: "flatten_edges ?segs = ?all" by (rule flatten_edges_projected)
  have len: "length ?all = 2 * length ?E"
    using length_flatten_edges [of ?segs] by (simp only: fl length_map)
  have ane: "?all \<noteq> []"
  proof
    assume "?all = []"
    then have "length ?all = 0" by simp
    with len ne show False by simp
  qed
  have n: "normalize_coords ?all sz default_margin = Inr (map ?f ?all, ?s)"
    by (rule normalize_coords_eq [OF ane])
  have n': "normalize_coords (flatten_edges ?segs) sz default_margin = Inr (map ?f ?all, ?s)"
    by (simp only: fl n)
  have lines: "edge_canvas_lines m view sz
           = Inr (map (\<lambda>k. (flip_y sz (map ?f ?all ! (2 * k)), flip_y sz (map ?f ?all ! (2 * k + 1))))
                   [0..<length ?E])"
    by (rule edge_canvas_lines_wf [OF wf n'])
  have nth: "\<forall>k < length ?E.
               map ?f ?all ! (2 * k) = ?f (?P ! fst (?E ! k)) \<and>
               map ?f ?all ! (2 * k + 1) = ?f (?P ! snd (?E ! k))"
  proof (intro allI impI)
    fix k assume k: "k < length ?E"
    then have k': "k < length ?segs" by simp
    have a: "?all ! (2 * k) = ?P ! fst (?E ! k)" "?all ! (2 * k + 1) = ?P ! snd (?E ! k)"
      using flatten_edges_nth [OF k'] k by (simp_all only: fl nth_map fst_conv snd_conv)
    have b: "2 * k < length ?all" "2 * k + 1 < length ?all" using k len by simp_all
    show "map ?f ?all ! (2 * k) = ?f (?P ! fst (?E ! k)) \<and>
          map ?f ?all ! (2 * k + 1) = ?f (?P ! snd (?E ! k))"
      by (simp only: nth_map [OF b(1)] nth_map [OF b(2)] a simp_thms)
  qed
  have svg: "svg_elements m view sz mode =
       Inr (map (\<lambda>k. SvgLine (flip_y sz (map ?f ?all ! (2 * k)))
                              (flip_y sz (map ?f ?all ! (2 * k + 1))) ''black'' (3 / 2))
              [0..<length ?E])"
    using md by (simp add: svg_elements_def lines o_def)
  have png: "png_ops m view sz mode =
       Inr (map (\<lambda>k. PngLine [flip_y sz (map ?f ?all ! (2 * k)),
                               flip_y sz (map ?f ?all ! (2 * k + 1))] ''black'' 2)
              [0..<length ?E])"
    using md by (simp add: png_ops_def lines o_def)
  have l2: "length (map ?f ?all) = 2 * length ?E" using len by simp
  show ?thesis
    unfolding Let_def n sum.case prod.case fst_conv snd_conv
    using l2 nth svg png by blast
qed


theorem edge_lines_positional_witness:
  "svg_elements \<lparr>vertices = [(0, 0, 0), (2, 0, 0), (0, 1, 0)], faces = [(0, 1, 2)],
                  edges_unique = [(0, 1), (1, 2), (2, 0)]\<rparr> ''top'' 1000 ''wireframe''
     = Inr [SvgLine (50, 950) (950, 950) ''black'' (3 / 2),
            SvgLine (950, 950) (50, 500) ''black'' (3 / 2),
            SvgLine (50, 500) (50, 950) ''black'' (3 / 2)]"
proof -
  let ?m = "\<lparr>vertices = [(0, 0, 0), (2, 0, 0), (0, 1, 0)], faces = [(0, 1, 2)],
             edges_unique = [(0, 1), (1, 2), (2, 0)]\<rparr>"
  have wf: "mesh_wf ?m" by (simp add: mesh_wf_def)
  have ne: "edges_unique ?m \<noteq> []" by simp
  have md: "''wireframe'' \<noteq> ''filled''" by simp
  show ?thesis
    using edge_lines_positional [OF wf ne md, of "''top''" 1000]
    by (simp add: Let_def get_projection_def normalize_coords_def amin_def amax_def
        range_vals_def where_zero_one_def true_divide_def default_margin_def flip_y_def
        upt_rec [of 0] upt_rec [of 1] upt_rec [of 2] upt_rec [of 3])
qed

lemma edge_lines_loop_no_vertices:
  "edge_lines_loop [] es = (if es = [] then Inr [] else Inl IndexError)"
  by (cases es) (simp_all add: row_def)

lemma projected_faces_loop_no_vertices:
  "projected_faces_loop [] fs = (if fs = [] then Inr [] else Inl IndexError)"
proof (cases fs)
  case Nil
  then show ?thesis by simp
next
  case (Cons f fs')
  obtain a b c where "f = (a, b, c)" by (cases f) auto
  with Cons show ?thesis by simp
qed

lemma normalize_coords_Nil: "normalize_coords [] sz margin = Inl ValueError"
  by (simp add: normalize_coords_def amin_def)

lemma canvas_no_vertices:
  assumes "vertices m = []"
  shows "filled_canvas_faces m view sz = Inl (if faces m = [] then ValueError else IndexError)"
    and "edge_canvas_lines m view sz = Inl (if edges_unique m = [] then ValueError else IndexError)"
proof -
  have p: "get_projection m view = []" using assms by (simp add: get_projection_def)
  show "filled_canvas_faces m view sz = Inl (if faces m = [] then ValueError else IndexError)"
    by (simp add: filled_canvas_faces_def get_filled_projection_def p
        projected_faces_loop_no_vertices normalize_coords_Nil)
  show "edge_canvas_lines m view sz = Inl (if edges_unique m = [] then ValueError else IndexError)"
    by (simp add: edge_canvas_lines_def get_outline_edges_def p edge_lines_loop_no_vertices
        flatten_edges_def vstack_def)
qed

lemma edge_canvas_lines_no_edges:
  "edges_unique m = [] \<Longrightarrow> edge_canvas_lines m view sz = Inl ValueError"
  by (simp add: edge_canvas_lines_def get_outline_edges_def flatten_edges_def vstack_def)

lemma filled_canvas_faces_no_faces:
  assumes "faces m = []" and "vertices m \<noteq> []"
  shows "filled_canvas_faces m view sz = Inr []"
proof -
  have "get_projection m view \<noteq> []"
    using assms(2) by (simp add: get_projection_def)
  then show ?thesis
    using assms(1)
    by (simp add: filled_canvas_faces_def get_filled_projection_def normalize_coords_eq)
qed

text \<open>
  Claim C7, as stated, at the mesh with no vertices, no faces and no edges: edge
  extraction returns the empty sequence instead of failing, and the DXF encoder writes a
  document.
\<close>

theorem empty_mesh_counterexample:
  "get_outline_edges \<lparr>vertices = [], faces = [], edges_unique = []\<rparr> ''top'' = Inr [] \<and>
   to_dxf \<lparr>vertices = [], faces = [], edges_unique = []\<rparr> ''top'' ''out.dxf'' ''wireframe'' Map.empty
     = (Inr (), [''out.dxf'' \<mapsto> DxfDoc []])"
  by (simp add: to_dxf_def dxf_entities_def get_outline_edges_def)

text \<open>
  Claim C7, amended. Extraction does not fail on an empty primitive set: it returns the
  empty sequence, and the DXF encoder then writes a document without entities. The markup
  and raster encoders raise (ValueError or IndexError) and leave the files unchanged for
  a mesh without vertices, and raise ValueError and leave the files unchanged for a mesh
  without unique edges in every mode but filled; for a mesh with vertices and without
  faces in mode filled they write the bare background.
\<close>

theorem empty_primitive_sets:
  "(edges_unique m = [] \<longrightarrow> get_outline_edges m view = Inr []) \<and>
   (faces m = [] \<longrightarrow> get_filled_projection m view = Inr (get_projection m view, [])) \<and>
   ((if mode = ''filled'' then faces m = [] else edges_unique m = []) \<longrightarrow>
      to_dxf m view output_path mode fs = (Inr (), fs(output_path \<mapsto> DxfDoc []))) \<and>
   (vertices m = [] \<longrightarrow>
      (to_svg m view output_path sz mode fs = (Inl ValueError, fs) \<or>
       to_svg m view output_path sz mode fs = (Inl IndexError, fs)) \<and>
      (to_png m view output_path sz mode fs = (Inl ValueError, fs) \<or>
       to_png m view output_path sz mode fs = (Inl IndexError, fs))) \<and>
   (edges_unique m = [] \<and> mode \<noteq> ''filled'' \<longrightarrow>
      to_svg m view output_path sz mode fs = (Inl ValueError, fs) \<and>
      to_png m view output_path sz mode fs = (Inl ValueError, fs)) \<and>
   (faces m = [] \<and> vertices m \<noteq> [] \<and> mode = ''filled'' \<longrightarrow>
      to_svg m view output_path sz mode fs
        = (Inr (), fs(output_path \<mapsto> SvgDoc (sz, sz) [SvgRect (0, 0) (sz, sz) ''white''])) \<and>
      to_png m view output_path sz mode fs
        = (Inr (), fs(output_path \<mapsto> PngImage (sz, sz) [])))"
proof (intro conjI impI)
  assume "edges_unique m = []"
  then show "get_outline_edges m view = Inr []" by (simp add: get_outline_edges_def)
next
  assume "faces m = []"
  then show "get_filled_projection m view = Inr (get_projection m view, [])"
    by (simp add: get_filled_projection_def)
next
  assume "if mode = ''filled'' then faces m = [] else edges_unique m = []"
  then show "to_dxf m view output_path mode fs = (Inr (), fs(output_path \<mapsto> DxfDoc []))"
    by (simp add: to_dxf_def dxf_entities_def get_filled_projection_def get_outline_edges_def
        split: if_splits)
next
  assume "vertices m = []"
  then show "to_svg m view output_path sz mode fs = (Inl ValueError, fs) \<or>
       to_svg m view output_path sz mode fs = (Inl IndexError, fs)"
    by (simp add: to_svg_def svg_elements_def canvas_no_vertices)
next
  assume "vertices m = []"
  then show "to_png m view output_path sz mode fs = (Inl ValueError, fs) \<or>
       to_png m view output_path sz mode fs = (Inl IndexError, fs)"
    by (simp add: to_png_def png_ops_def canvas_no_vertices)
next
  assume "edges_unique m = [] \<and> mode \<noteq> ''filled''"
  then show "to_svg m view output_path sz mode fs = (Inl ValueError, fs)"
    by (simp add: to_svg_def svg_elements_def edge_canvas_lines_no_edges)
next
  assume "edges_unique m = [] \<and> mode \<noteq> ''filled''"
  then show "to_png m view output_path sz mode fs = (Inl ValueError, fs)"
    by (simp add: to_png_def png_ops_def edge_canvas_lines_no_edges)
next
  assume "faces m = [] \<and> vertices m \<noteq> [] \<and> mode = ''filled''"
  then show "to_svg m view output_path sz mode fs
        = (Inr (), fs(output_path \<mapsto> SvgDoc (sz, sz) [SvgRect (0, 0) (sz, sz) ''white'']))"
    by (simp add: to_svg_def svg_elements_def filled_canvas_faces_no_faces)
next
  assume "faces m = [] \<and> vertices m \<noteq> [] \<and> mode = ''filled''"
  then show "to_png m view output_path sz mode fs
        = (Inr (), fs(output_path \<mapsto> PngImage (sz, sz) []))"
    by (simp add: to_png_def png_ops_def filled_canvas_faces_no_faces)
qed

theorem empty_primitive_sets_witness:
  "to_dxf \<lparr>vertices = [], faces = [], edges_unique = []\<rparr> ''top'' ''out'' ''filled'' Map.empty
     = (Inr (), [''out'' \<mapsto> DxfDoc []]) \<and>
   to_svg \<lparr>vertices = [], faces = [], edges_unique = []\<rparr> ''top'' ''out'' 1000 ''wireframe'' Map.empty
     = (Inl ValueError, Map.empty) \<and>
   to_png \<lparr>vertices = [], faces = [], edges_unique = []\<rparr> ''top'' ''out'' 1000 ''wireframe'' Map.empty
     = (Inl ValueError, Map.empty) \<and>
   to_svg \<lparr>vertices = [(1, 2, 3)], faces = [], edges_unique = []\<rparr> ''top'' ''out'' 1000 ''filled'' Map.empty
     = (Inr (), [''out'' \<mapsto> SvgDoc (1000, 1000) [SvgRect (0, 0) (1000, 1000) ''white'']]) \<and>
   to_png \<lparr>vertices = [(1, 2, 3)], faces = [], edges_unique = []\<rparr> ''top'' ''out'' 1000 ''filled'' Map.empty
     = (Inr (), [''out'' \<mapsto> PngImage (1000, 1000) []])"
  using
    empty_primitive_sets [of "\<lparr>vertices = [], faces = [], edges_unique = []\<rparr>" "''top''" "''filled''"
      "''out''" Map.empty 1000]
    empty_primitive_sets [of "\<lparr>vertices = [], faces = [], edges_unique = []\<rparr>" "''top''" "''wireframe''"
      "''out''" Map.empty 1000]
    empty_primitive_sets [of "\<lparr>vertices = [(1, 2, 3)], faces = [], edges_unique = []\<rparr>" "''top''" "''filled''"
      "''out''" Map.empty 1000]
  by simp

lemma normalize_coords_min_canvas:
  assumes "points \<noteq> []"
  shows "normalize_coords points 100 default_margin = Inr (replicate (length points) (50, 50), 0)"
proof -
  have sc: "bbox_scale points 100 default_margin = 0"
    by (simp add: bbox_scale_def default_margin_def)
  show ?thesis
    unfolding normalize_coords_eq [OF assms] sc
    by (simp add: default_margin_def map_const_replicate)
qed

lemma flip_y_centre: "flip_y 100 (50, 50) = (50, 50)"
  by (simp add: flip_y_def)

lemma edge_canvas_lines_min_canvas:
  assumes wf: "mesh_wf m" and ne: "edges_unique m \<noteq> []"
  shows "edge_canvas_lines m view 100
           = Inr (replicate (length (edges_unique m)) ((50, 50), (50, 50)))"
proof -
  let ?segs = "map (\<lambda>e. (get_projection m view ! fst e, get_projection m view ! snd e)) (edges_unique m)"
  let ?n = "length (edges_unique m)"
  have len: "length (flatten_edges ?segs) = 2 * ?n" by (simp add: length_flatten_edges)
  have fne: "flatten_edges ?segs \<noteq> []" using ne by (simp add: flatten_edges_Nil_iff)
  have n: "normalize_coords (flatten_edges ?segs) 100 default_margin
             = Inr (replicate (2 * ?n) (50, 50), 0)"
    using normalize_coords_min_canvas [OF fne] by (simp only: len)
  have "map (\<lambda>k. (flip_y 100 (replicate (2 * ?n) (50, 50) ! (2 * k)),
                   flip_y 100 (replicate (2 * ?n) (50, 50) ! (2 * k + 1)))) [0..<?n]
          = replicate (length [0..<?n]) ((50, 50), (50, 50))"
    by (rule map_const_replicate) (simp add: flip_y_centre)
  then show ?thesis
    unfolding edge_canvas_lines_wf [OF wf n] by simp
qed

lemma filled_canvas_faces_min_canvas:
  assumes wf: "mesh_wf m" and ne: "vertices m \<noteq> []"
  shows "filled_canvas_faces m view 100
           = Inr (replicate (length (faces m)) [(50, 50), (50, 50), (50, 50)])"
proof -
  let ?N = "replicate (length (vertices m)) (50 :: real, 50 :: real)"
  have pne: "get_projection m view \<noteq> []"
    using ne by (simp add: get_projection_def)
  have n: "normalize_coords (get_projection m view) 100 default_margin = Inr (?N, 0)"
    using normalize_coords_min_canvas [OF pne] by (simp only: length_get_projection)
  have fw: "list_all (\<lambda>f. fst f < length ?N \<and> fst (snd f) < length ?N \<and> snd (snd f) < length ?N) (faces m)"
    using wf by (simp add: mesh_wf_def)
  have "map (\<lambda>f. [flip_y 100 (?N ! fst f), flip_y 100 (?N ! fst (snd f)), flip_y 100 (?N ! snd (snd f))])
          (faces m) = replicate (length (faces m)) [(50, 50), (50, 50), (50, 50)]"
    using wf by (intro map_const_replicate) (simp add: mesh_wf_def list_all_iff flip_y_centre)
  then show ?thesis
    by (simp add: filled_canvas_faces_def get_filled_projection_wf [OF wf] n
        face_points_loop_wf [OF fw])
qed

text \<open>
  Claim C10. The size 100 is accepted by the endpoint. With it and the default margin the
  span between the margins is 0: the scale is 0 and every point of a non-empty input is
  sent to (50, 50). For a mesh whose faces and edges name existing vertices the markup
  and raster encoders then succeed, and every primitive they draw has all its points at
  (50, 50).
\<close>

theorem minimum_canvas_collapses:
  assumes wf: "mesh_wf m"
  shows "size_accepted 100 \<and>
     (points \<noteq> [] \<longrightarrow>
        normalize_coords points 100 default_margin = Inr (replicate (length points) (50, 50), 0)) \<and>
     (mode \<noteq> ''filled'' \<and> edges_unique m \<noteq> [] \<longrightarrow>
        to_svg m view output_path 100 mode fs
          = (Inr (), fs(output_path \<mapsto> SvgDoc (100, 100)
               (SvgRect (0, 0) (100, 100) ''white''
                # replicate (length (edges_unique m)) (SvgLine (50, 50) (50, 50) ''black'' (3 / 2))))) \<and>
        to_png m view output_path 100 mode fs
          = (Inr (), fs(output_path \<mapsto> PngImage (100, 100)
               (replicate (length (edges_unique m)) (PngLine [(50, 50), (50, 50)] ''black'' 2))))) \<and>
     (mode = ''filled'' \<and> vertices m \<noteq> [] \<longrightarrow>
        to_svg m view output_path 100 mode fs
          = (Inr (), fs(output_path \<mapsto> SvgDoc (100, 100)
               (SvgRect (0, 0) (100, 100) ''white''
                # replicate (length (faces m))
                    (SvgPolygon [(50, 50), (50, 50), (50, 50)] ''lightgray'' ''black'' (1 / 2))))) \<and>
        to_png m view output_path 100 mode fs
          = (Inr (), fs(output_path \<mapsto> PngImage (100, 100)
               (replicate (length (faces m))
                  (PngPolygon [(50, 50), (50, 50), (50, 50)] (200, 200, 200) (0, 0, 0))))))"
proof (intro conjI impI)
  show "size_accepted 100" by (simp add: size_accepted_def)
next
  assume "points \<noteq> []"
  then show "normalize_coords points 100 default_margin = Inr (replicate (length points) (50, 50), 0)"
    by (rule normalize_coords_min_canvas)
next
  assume a: "mode \<noteq> ''filled'' \<and> edges_unique m \<noteq> []"
  then have e: "edge_canvas_lines m view 100 = Inr (replicate (length (edges_unique m)) ((50, 50), (50, 50)))"
    using edge_canvas_lines_min_canvas [OF wf] by simp
  from a show "to_svg m view output_path 100 mode fs
          = (Inr (), fs(output_path \<mapsto> SvgDoc (100, 100)
               (SvgRect (0, 0) (100, 100) ''white''
                # replicate (length (edges_unique m)) (SvgLine (50, 50) (50, 50) ''black'' (3 / 2)))))"
    by (simp add: to_svg_def svg_elements_def e)
  from a show "to_png m view output_path 100 mode fs
          = (Inr (), fs(output_path \<mapsto> PngImage (100, 100)
               (replicate (length (edges_unique m)) (PngLine [(50, 50), (50, 50)] ''black'' 2))))"
    by (simp add: to_png_def png_ops_def e)
next
  assume a: "mode = ''filled'' \<and> vertices m \<noteq> []"
  then have e: "filled_canvas_faces m view 100
           = Inr (replicate (length (faces m)) [(50, 50), (50, 50), (50, 50)])"
    using filled_canvas_faces_min_canvas [OF wf] by simp
  from a show "to_svg m view output_path 100 mode fs
          = (Inr (), fs(output_path \<mapsto> SvgDoc (100, 100)
               (SvgRect (0, 0) (100, 100) ''white''
                # replicate (length (faces m))
                    (SvgPolygon [(50, 50), (50, 50), (50, 50)] ''lightgray'' ''black'' (1 / 2)))))"
    by (simp add: to_svg_def svg_elements_def e)
  from a show "to_png m view output_path 100 mode fs
          = (Inr (), fs(output_path \<mapsto> PngImage (100, 100)
               (replicate (length (faces m))
                  (PngPolygon [(50, 50), (50, 50), (50, 50)] (200, 200, 200) (0, 0, 0)))))"
    by (simp add: to_png_def png_ops_def e)
qed

theorem minimum_canvas_collapses_witness:
  "normalize_coords [(0, 0), (7, 3)] 100 default_margin = Inr ([(50, 50), (50, 50)], 0) \<and>
   to_svg \<lparr>vertices = [(0, 0, 0), (2, 0, 0), (0, 1, 0)], faces = [(0, 1, 2)],
           edges_unique = [(0, 1), (1, 2), (2, 0)]\<rparr> ''top'' ''out.svg'' 100 ''wireframe'' Map.empty
     = (Inr (), [''out.svg'' \<mapsto> SvgDoc (100, 100)
          [SvgRect (0, 0) (100, 100) ''white'',
           SvgLine (50, 50) (50, 50) ''black'' (3 / 2),
           SvgLine (50, 50) (50, 50) ''black'' (3 / 2),
           SvgLine (50, 50) (50, 50) ''black'' (3 / 2)]]) \<and>
   to_png \<lparr>vertices = [(0, 0, 0), (2, 0, 0), (0, 1, 0)], faces = [(0, 1, 2)],
           edges_unique = [(0, 1), (1, 2), (2, 0)]\<rparr> ''top'' ''out.png'' 100 ''filled'' Map.empty
     = (Inr (), [''out.png'' \<mapsto> PngImage (100, 100)
          [PngPolygon [(50, 50), (50, 50), (50, 50)] (200, 200, 200) (0, 0, 0)]])"
proof -
  let ?m = "\<lparr>vertices = [(0, 0, 0), (2, 0, 0), (0, 1, 0)], faces = [(0, 1, 2)],
             edges_unique = [(0, 1), (1, 2), (2, 0)]\<rparr>"
  have wf: "mesh_wf ?m" by (simp add: mesh_wf_def)
  show ?thesis
    using minimum_canvas_collapses [OF wf, of "[(0, 0), (7, 3)]" "''wireframe''" "''top''" "''out.svg''" Map.empty]
      minimum_canvas_collapses [OF wf, of "[(0, 0), (7, 3)]" "''filled''" "''top''" "''out.png''" Map.empty]
    by (simp add: numeral_3_eq_3 numeral_2_eq_2)
qed


end
